theory Spec2Isabelle
  imports Main "HOL-Library.Word" "HOL-Library.Code_Target_Nat"
begin

section \<open>JavaScript values used by body.js\<close>

text \<open>
  A JavaScript string is a sequence of UTF-16 code units; a \<open>Buffer\<close>, an \<open>ArrayBuffer\<close>
  and a \<open>Uint8Array\<close> are sequences of bytes. String literals of the source are written
  with \<open>str\<close>.
\<close>

type_synonym byte = "8 word"
type_synonym bytes = "byte list"
type_synonym jsstring = "16 word list"

definition str :: "string \<Rightarrow> jsstring" where
  "str s = map (\<lambda>c. of_nat (of_char c)) s"

text \<open>
  \<open>Buffer.from(string)\<close> and \<open>Buffer.byteLength(string)\<close> encode a string as UTF-8: a
  surrogate pair becomes one four-byte sequence, a lone surrogate becomes U+FFFD
  (\<open>EF BF BD\<close>).
\<close>

definition utf8_cp :: "nat \<Rightarrow> bytes" where
  "utf8_cp c =
     (if c < 0x80 then [of_nat c]
      else if c < 0x800 then [of_nat (0xC0 + c div 0x40), of_nat (0x80 + c mod 0x40)]
      else if c < 0x10000 then
        [of_nat (0xE0 + c div 0x1000), of_nat (0x80 + (c div 0x40) mod 0x40),
         of_nat (0x80 + c mod 0x40)]
      else
        [of_nat (0xF0 + c div 0x40000), of_nat (0x80 + (c div 0x1000) mod 0x40),
         of_nat (0x80 + (c div 0x40) mod 0x40), of_nat (0x80 + c mod 0x40)])"

definition is_high_surrogate :: "16 word \<Rightarrow> bool" where
  "is_high_surrogate u = (0xD800 \<le> unat u \<and> unat u < 0xDC00)"

definition is_low_surrogate :: "16 word \<Rightarrow> bool" where
  "is_low_surrogate u = (0xDC00 \<le> unat u \<and> unat u < 0xE000)"

fun Buffer_from_string :: "jsstring \<Rightarrow> bytes" where
  "Buffer_from_string [] = []"
| "Buffer_from_string [u] =
     (if is_high_surrogate u \<or> is_low_surrogate u then utf8_cp 0xFFFD else utf8_cp (unat u))"
| "Buffer_from_string (u # l # us) =
     (if is_high_surrogate u \<and> is_low_surrogate l then
        utf8_cp (0x10000 + (unat u - 0xD800) * 0x400 + (unat l - 0xDC00)) @ Buffer_from_string us
      else if is_high_surrogate u \<or> is_low_surrogate u then
        utf8_cp 0xFFFD @ Buffer_from_string (l # us)
      else utf8_cp (unat u) @ Buffer_from_string (l # us))"

definition Buffer_byteLength :: "jsstring \<Rightarrow> nat" where
  "Buffer_byteLength s = length (Buffer_from_string s)"

text \<open>
  \<open>buffer.toString()\<close> decodes UTF-8 into UTF-16 code units. Every maximal ill-formed
  subsequence is replaced by U+FFFD; \<open>lo\<close> and \<open>hi\<close> bound the next continuation byte.
\<close>

definition utf16_cp :: "nat \<Rightarrow> jsstring" where
  "utf16_cp c =
     (if c < 0x10000 then [of_nat c]
      else [of_nat (0xD800 + (c - 0x10000) div 0x400), of_nat (0xDC00 + (c - 0x10000) mod 0x400)])"

function utf8_decode :: "nat \<Rightarrow> nat \<Rightarrow> nat \<Rightarrow> nat \<Rightarrow> bytes \<Rightarrow> jsstring" where
  "utf8_decode cp needed lo hi [] = (if needed = 0 then [] else utf16_cp 0xFFFD)"
| "utf8_decode cp needed lo hi (b # bs) =
     (let x = unat b in
      if needed = 0 then
        (if x < 0x80 then utf16_cp x @ utf8_decode 0 0 0x80 0xBF bs
         else if 0xC2 \<le> x \<and> x \<le> 0xDF then utf8_decode (x mod 0x20) 1 0x80 0xBF bs
         else if 0xE0 \<le> x \<and> x \<le> 0xEF then
           utf8_decode (x mod 0x10) 2 (if x = 0xE0 then 0xA0 else 0x80)
             (if x = 0xED then 0x9F else 0xBF) bs
         else if 0xF0 \<le> x \<and> x \<le> 0xF4 then
           utf8_decode (x mod 0x08) 3 (if x = 0xF0 then 0x90 else 0x80)
             (if x = 0xF4 then 0x8F else 0xBF) bs
         else utf16_cp 0xFFFD @ utf8_decode 0 0 0x80 0xBF bs)
      else if x < lo \<or> hi < x then utf16_cp 0xFFFD @ utf8_decode 0 0 0x80 0xBF (b # bs)
      else if needed = 1 then utf16_cp (cp * 0x40 + x mod 0x40) @ utf8_decode 0 0 0x80 0xBF bs
      else utf8_decode (cp * 0x40 + x mod 0x40) (needed - 1) 0x80 0xBF bs)"
  by pat_completeness auto
termination
  by (relation "measure (\<lambda>(cp, needed, lo, hi, bs). 2 * length bs + (if needed = 0 then 0 else 1))")
     auto

definition Buffer_toString :: "bytes \<Rightarrow> jsstring" where
  "Buffer_toString b = utf8_decode 0 0 0x80 0xBF b"

text \<open>Template literals print a number in decimal and a missing property as \<open>undefined\<close>.\<close>

fun show_nat :: "nat \<Rightarrow> jsstring" where
  "show_nat n =
     (if n < 10 then [of_nat (48 + n)] else show_nat (n div 10) @ [of_nat (48 + n mod 10)])"

declare show_nat.simps [simp del]

text \<open>
  \<open>quoted s\<close> is \<open>s\<close> between single quotes. \<open>show_sep\<close> prints a number with
  \<open>_\<close> between groups of three digits, as Node's error messages print an integer
  beyond \<open>2 ^ 32\<close>.
\<close>

definition quoted :: "jsstring \<Rightarrow> jsstring" where
  "quoted s = [0x27] @ s @ [0x27]"

fun show_sep :: "nat \<Rightarrow> jsstring" where
  "show_sep n =
     (if n < 1000 then show_nat n
      else show_sep (n div 1000) @ str ''_''
           @ [of_nat (48 + n mod 1000 div 100), of_nat (48 + n mod 100 div 10),
              of_nat (48 + n mod 10)])"

declare show_sep.simps [simp del]

definition tpl :: "jsstring option \<Rightarrow> jsstring" where
  "tpl v = (case v of None \<Rightarrow> str ''undefined'' | Some s \<Rightarrow> s)"

text \<open>
  The errors the module raises. \<open>FetchError message type systemError\<close> is the class of
  \<open>fetch-error.js\<close>; the other three are the platform's.
\<close>

datatype js_error =
    TypeError jsstring
  | RangeError jsstring
  | Error jsstring
  | FetchError jsstring jsstring "js_error option"

fun message :: "js_error \<Rightarrow> jsstring" where
  "message (TypeError m) = m"
| "message (RangeError m) = m"
| "message (Error m) = m"
| "message (FetchError m t c) = m"

fun kind :: "js_error \<Rightarrow> jsstring option" where
  "kind (FetchError m t c) = Some t"
| "kind e = None"

section \<open>Body sources\<close>

text \<open>
  \<open>getTypeOfBody\<close> sorts a body source into eleven shapes by duck typing. The model
  holds a source already sorted, with what the module reads of each shape:
  the string of a URLSearchParams (\<open>toString()\<close>) and of any other object
  (\<open>String(body)\<close>), the bytes and the type of a Blob, the underlying buffer, offset
  and length of a view, and for a FormData its \<open>toString()\<close>, \<open>boundary\<close>, \<open>stream\<close>
  and the length interface of the form-data package. Node streams and web streams are
  objects with identity: they live in a store and a source holds their address.
\<close>

datatype ending = Ended | Failed js_error | Stalled

record blob =
  blob_bytes :: bytes
  blob_type :: jsstring

record array_buffer_view =
  buffer :: bytes
  byteOffset :: nat
  byteLength :: nat

record form_data =
  fd_toString :: jsstring
  boundary :: "jsstring option"
  stream :: "(bytes list \<times> ending) option"
  lengthRetrievers :: "nat option"
  hasKnownLength :: "bool option"
  getLengthSync :: nat

datatype body_source =
    BNull
  | BString jsstring
  | BURLSearchParams jsstring
  | BBlob blob
  | BBuffer bytes
  | BArrayBuffer bytes
  | BArrayBufferView array_buffer_view
  | BFormData form_data
  | BStream nat
  | BReadableStream nat
  | BOther jsstring

datatype body_type =
    T_null | T_String | T_URLSearchParams | T_Blob | T_Buffer | T_ArrayBuffer
  | T_ArrayBufferView | T_FormData | T_Stream | T_ReadableStream | T_other

fun getTypeOfBody :: "body_source \<Rightarrow> body_type" where
  "getTypeOfBody BNull = T_null"
| "getTypeOfBody (BString s) = T_String"
| "getTypeOfBody (BURLSearchParams s) = T_URLSearchParams"
| "getTypeOfBody (BBlob b) = T_Blob"
| "getTypeOfBody (BBuffer b) = T_Buffer"
| "getTypeOfBody (BArrayBuffer b) = T_ArrayBuffer"
| "getTypeOfBody (BArrayBufferView v) = T_ArrayBufferView"
| "getTypeOfBody (BFormData f) = T_FormData"
| "getTypeOfBody (BStream n) = T_Stream"
| "getTypeOfBody (BReadableStream w) = T_ReadableStream"
| "getTypeOfBody (BOther s) = T_other"

section \<open>The Body state\<close>

text \<open>
  \<open>size_B\<close> and \<open>timeout\<close> are the instance's \<open>size\<close> and \<open>timeout\<close>; \<open>body\<close>,
  \<open>readableStream\<close>, \<open>disturbed\<close> and \<open>name\<close> are the fields of \<open>this[INTERNALS]\<close>
  (\<open>readableStream\<close> is \<open>None\<close> for \<open>null\<close>, else the address of a web stream).
  \<open>url\<close> and \<open>headers\<close> are the properties of the Request or Response that Body is
  mixed into; a plain Body has neither.
\<close>

record body_state =
  size_B :: nat
  timeout :: nat
  body :: body_source
  readableStream :: "nat option"
  disturbed :: bool
  name :: jsstring
  url :: "jsstring option"
  headers :: "(jsstring \<times> jsstring) list option"

definition getInstanceName :: "body_state \<Rightarrow> jsstring" where
  "getInstanceName inst = name inst"

definition getInstanceBody :: "body_state \<Rightarrow> body_source" where
  "getInstanceBody inst = body inst"

definition setInstanceBody :: "body_state \<Rightarrow> body_source \<Rightarrow> body_state" where
  "setInstanceBody inst newBody = inst\<lparr>body := newBody\<rparr>"

definition getInstanceReadableStream :: "body_state \<Rightarrow> nat option" where
  "getInstanceReadableStream inst = readableStream inst"

definition bodyUsed :: "body_state \<Rightarrow> bool" where
  "bodyUsed inst = disturbed inst"

section \<open>Content negotiation\<close>

definition extractContentType :: "body_state \<Rightarrow> jsstring option" where
  "extractContentType inst =
     (case getInstanceBody inst of
        BString s \<Rightarrow> Some (str ''text/plain;charset=UTF-8'')
      | BOther s \<Rightarrow> Some (str ''text/plain;charset=UTF-8'')
      | BURLSearchParams s \<Rightarrow> Some (str ''application/x-www-form-urlencoded;charset=UTF-8'')
      | BBlob b \<Rightarrow> (if blob_type b = [] then None else Some (blob_type b))
      | BFormData f \<Rightarrow> Some (str ''multipart/form-data;boundary='' @ tpl (boundary f))
      | _ \<Rightarrow> None)"

text \<open>
  In \<open>getTotalBytes\<close> the FormData case has no \<open>break\<close>: a form that does not report a
  length falls through to \<open>default\<close>.
\<close>

definition getTotalBytes :: "body_state \<Rightarrow> nat option" where
  "getTotalBytes inst =
     (case getInstanceBody inst of
        BNull \<Rightarrow> Some 0
      | BString s \<Rightarrow> Some (Buffer_byteLength s)
      | BURLSearchParams s \<Rightarrow> Some (Buffer_byteLength s)
      | BOther s \<Rightarrow> Some (Buffer_byteLength s)
      | BBlob b \<Rightarrow> Some (length (blob_bytes b))
      | BBuffer b \<Rightarrow> Some (length b)
      | BArrayBuffer b \<Rightarrow> Some (length b)
      | BArrayBufferView v \<Rightarrow> Some (byteLength v)
      | BFormData f \<Rightarrow>
          (if lengthRetrievers f = Some 0 \<or> hasKnownLength f = Some True
           then Some (getLengthSync f) else None)
      | _ \<Rightarrow> None)"

section \<open>Streams\<close>

text \<open>
  A stream is modelled by what it will deliver: its chunks, and how it ends (\<open>Ended\<close>,
  \<open>Failed\<close> with an error, or \<open>Stalled\<close>: nothing more ever arrives). Chunks are byte
  arrays, as a byte stream delivers them, so \<open>Buffer.from(chunk)\<close> is the identity.

  A Node stream hands every chunk to every listener attached before it starts to flow.
  \<open>nflowed\<close> records that it has flowed: what is attached afterwards receives no
  chunk, and \<open>pipe\<close> still ends a destination attached after the end. A
  \<open>PassThrough\<close> starts empty and open. \<open>src.pipe(dst)\<close> forwards the chunks and
  the end of \<open>src\<close>, never its error, and resumes \<open>src\<close>, which flows once the
  current call has returned: \<open>flow\<close> is applied at the end of a function that pipes.
  \<open>nfed\<close> is the stream piped into a \<open>PassThrough\<close>.

  A pipe pauses its source when \<open>dst.write(chunk)\<close> returns false, until \<open>dst\<close>
  drains, and while the source is paused no destination of it receives a chunk or
  the end. A \<open>PassThrough\<close> that is read drains at once. One that nobody reads
  keeps what it is given: \<open>paused_after r w held cs\<close> follows \<open>Writable.write\<close>
  and \<open>Transform._write\<close> of Node 16 over the chunks \<open>cs\<close>, with \<open>r\<close> the bytes in its
  readable buffer, \<open>w\<close> the length of its writable state and \<open>held\<close> whether the
  callback of a write is held back because the readable buffer has reached the
  high-water mark (16 KiB); the result is the number of chunks the source has emitted
  when a write returns false, \<open>None\<close> when none does. \<open>node_emits h n\<close> is what
  stream \<open>n\<close> delivers to what is attached to it: for a \<open>PassThrough\<close> fed by a
  pipe, the chunks emitted before another destination of the same source, one that
  has not flowed, pauses that source.

  A web stream is either a queue of its own (\<open>WOwn\<close>) or the adapter that
  \<open>readableNodeToWeb\<close> puts around a Node stream (\<open>WNode\<close>, with the \<open>url\<close> of the
  instance it was made for, and whether it was attached in time). It is locked by
  \<open>getReader\<close>, \<open>tee\<close> and \<open>pipeThrough\<close>, and the module never releases a lock, so
  the model keeps the lock and not the read position.
\<close>

record node_stream =
  nitems :: "bytes list"
  nending :: ending
  nflowed :: bool
  nfed :: "nat option"

datatype web_source = WOwn "bytes list" ending | WNode nat "jsstring option" bool

record web_stream =
  wsrc :: web_source
  wlocked :: bool

record store =
  nodes :: "node_stream list"
  webs :: "web_stream list"

definition new_web :: "web_source \<Rightarrow> store \<Rightarrow> nat \<times> store" where
  "new_web src h = (length (webs h), h\<lparr>webs := webs h @ [\<lparr>wsrc = src, wlocked = False\<rparr>]\<rparr>)"

definition new_PassThrough :: "store \<Rightarrow> nat \<times> store" where
  "new_PassThrough h =
     (length (nodes h), h\<lparr>nodes := nodes h @ [\<lparr>nitems = [], nending = Stalled, nflowed = False, nfed = None\<rparr>]\<rparr>)"

definition highWaterMark :: nat where
  "highWaterMark = 16384"

fun paused_after :: "nat \<Rightarrow> nat \<Rightarrow> bool \<Rightarrow> bytes list \<Rightarrow> nat option" where
  "paused_after r w held [] = None"
| "paused_after r w held (chunk # cs) =
     (let w1 = w + length chunk;
          ret = (w1 < highWaterMark);
          r1 = (if held then r else r + length chunk);
          called = (\<not> held \<and> (r1 = r \<or> r1 < highWaterMark));
          w2 = (if called then w1 - length chunk else w1)
      in if ret then map_option Suc (paused_after r1 w2 (\<not> called) cs) else Some 1)"

definition blocked :: "store \<Rightarrow> nat \<Rightarrow> nat \<Rightarrow> bool" where
  "blocked h src n =
     list_ex (\<lambda>d. d \<noteq> n \<and> nfed (nodes h ! d) = Some src \<and> \<not> nflowed (nodes h ! d))
       [0 ..< length (nodes h)]"

definition node_emits :: "store \<Rightarrow> nat \<Rightarrow> bytes list \<times> ending" where
  "node_emits h n =
     (let s = nodes h ! n in
      case nfed s of
        None \<Rightarrow> (nitems s, nending s)
      | Some src \<Rightarrow>
          (if blocked h src n then
             (case paused_after 0 0 False (nitems s) of
                None \<Rightarrow> (nitems s, nending s)
              | Some k \<Rightarrow> (take k (nitems s), Stalled))
           else (nitems s, nending s)))"

definition node_items :: "store \<Rightarrow> nat \<Rightarrow> bytes list \<times> ending" where
  "node_items h n =
     (if n < length (nodes h) then
        (if nflowed (nodes h ! n)
         then ([], (case snd (node_emits h n) of Ended \<Rightarrow> Ended | _ \<Rightarrow> Stalled))
         else node_emits h n)
      else ([], Stalled))"

definition flow :: "nat \<Rightarrow> store \<Rightarrow> store" where
  "flow n h =
     (if n < length (nodes h)
      then h\<lparr>nodes := (nodes h)[n := (nodes h ! n)\<lparr>nflowed := True\<rparr>]\<rparr> else h)"

definition pipe :: "nat \<Rightarrow> nat \<Rightarrow> store \<Rightarrow> store" where
  "pipe src dst h =
     (if dst < length (nodes h) then
        (case node_items h src of (cs, e) \<Rightarrow>
           h\<lparr>nodes := (nodes h)[dst := (nodes h ! dst)
                \<lparr>nitems := nitems (nodes h ! dst) @ cs,
                 nending := (case e of Ended \<Rightarrow> Ended | _ \<Rightarrow> Stalled),
                 nfed := Some src\<rparr>]\<rparr>)
      else h)"

definition readableNodeToWeb :: "nat \<Rightarrow> body_state \<Rightarrow> store \<Rightarrow> nat \<times> store" where
  "readableNodeToWeb nodeStream inst h =
     new_web (WNode nodeStream (url inst)
       (nodeStream < length (nodes h) \<and> \<not> nflowed (nodes h ! nodeStream))) h"

definition web_items :: "store \<Rightarrow> web_source \<Rightarrow> bytes list \<times> ending" where
  "web_items h src =
     (case src of
        WOwn cs e \<Rightarrow> (cs, e)
      | WNode n u live \<Rightarrow>
          (if live \<and> n < length (nodes h) then
             (fst (node_emits h n),
              (case snd (node_emits h n) of
                 Ended \<Rightarrow> Ended
               | Stalled \<Rightarrow> Stalled
               | Failed err \<Rightarrow>
                   Failed (FetchError
                     (str ''Invalid response body while trying to fetch '' @ tpl u @ str '': ''
                        @ message err)
                     (str ''system'') (Some err))))
           else ([], Stalled)))"

text \<open>
  \<open>getReader\<close>, \<open>tee\<close> and \<open>pipeThrough\<close> throw a \<open>TypeError\<close> on a locked stream
  (and on an address that holds no stream, which no reference of the program is).
  \<open>getReader\<close> gives what the reader will deliver. Each branch of \<open>tee\<close> delivers
  every chunk of the stream: a branch has the source of the original, and \<open>tee\<close>
  buffers without bound for the branch that is read later.
\<close>

definition locked_message :: jsstring where
  "locked_message = str ''Invalid state: ReadableStream is locked''"

definition not_a_stream :: js_error where
  "not_a_stream = TypeError (str ''not a ReadableStream'')"

definition lock :: "nat \<Rightarrow> store \<Rightarrow> store" where
  "lock w h = h\<lparr>webs := (webs h)[w := (webs h ! w)\<lparr>wlocked := True\<rparr>]\<rparr>"

definition getReader :: "nat \<Rightarrow> store \<Rightarrow> js_error + ((bytes list \<times> ending) \<times> store)" where
  "getReader w h =
     (if \<not> w < length (webs h) then Inl not_a_stream
      else if wlocked (webs h ! w) then Inl (TypeError locked_message)
      else Inr (web_items h (wsrc (webs h ! w)), lock w h))"

definition tee :: "nat \<Rightarrow> store \<Rightarrow> js_error + ((nat \<times> nat) \<times> store)" where
  "tee w h =
     (if \<not> w < length (webs h) then Inl not_a_stream
      else if wlocked (webs h ! w) then Inl (TypeError locked_message)
      else (case new_web (wsrc (webs h ! w)) (lock w h) of (p1, h1) \<Rightarrow>
              (case new_web (wsrc (webs h ! w)) h1 of (p2, h2) \<Rightarrow> Inr ((p1, p2), h2))))"

text \<open>
  The \<open>TransformStream\<close> of \<open>createReadableStream\<close> keeps the chunks that are not empty.
\<close>

definition pipeThrough :: "nat \<Rightarrow> store \<Rightarrow> js_error + (nat \<times> store)" where
  "pipeThrough w h =
     (if \<not> w < length (webs h) then Inl not_a_stream
      else if wlocked (webs h ! w) then Inl (TypeError locked_message)
      else (case web_items h (wsrc (webs h ! w)) of (cs, e) \<Rightarrow>
              Inr (new_web (WOwn (filter (\<lambda>c. c \<noteq> []) cs) e) (lock w h))))"

text \<open>
  When a reader of the adapter asks for a chunk, \<open>pull\<close> resumes the Node stream behind
  it, which then flows.
\<close>

definition pull :: "nat \<Rightarrow> store \<Rightarrow> store" where
  "pull w h =
     (if w < length (webs h) then
        (case wsrc (webs h ! w) of
           WNode n u live \<Rightarrow> flow n h
         | WOwn cs e \<Rightarrow> h)
      else h)"

section \<open>createReadableStream and the Body constructor\<close>

text \<open>
  \<open>single array\<close> is the stream built at the end of \<open>createReadableStream\<close>: it enqueues
  \<open>array\<close> when it is not empty, and closes.
\<close>

definition single :: "bytes \<Rightarrow> store \<Rightarrow> nat option \<times> store" where
  "single array h =
     (case new_web (WOwn (if length array > 0 then [array] else []) Ended) h of
        (w, h') \<Rightarrow> (Some w, h'))"

definition createReadableStream ::
  "body_state \<Rightarrow> store \<Rightarrow> js_error + (nat option \<times> store)" where
  "createReadableStream inst h =
     (case getInstanceBody inst of
        BNull \<Rightarrow> Inr (None, h)
      | BReadableStream w \<Rightarrow>
          (case pipeThrough w h of Inl e \<Rightarrow> Inl e | Inr (r, h') \<Rightarrow> Inr (Some r, h'))
      | BStream n \<Rightarrow> (case readableNodeToWeb n inst h of (r, h') \<Rightarrow> Inr (Some r, h'))
      | BString s \<Rightarrow> Inr (single (Buffer_from_string s) h)
      | BURLSearchParams s \<Rightarrow> Inr (single (Buffer_from_string s) h)
      | BBlob b \<Rightarrow> Inr (single (blob_bytes b) h)
      | BBuffer b \<Rightarrow> Inr (single b h)
      | BArrayBuffer b \<Rightarrow> Inr (single b h)
      | BArrayBufferView v \<Rightarrow> Inr (single (buffer v) h)
      | BFormData f \<Rightarrow> Inr (single (Buffer_from_string (fd_toString f)) h)
      | BOther s \<Rightarrow> Inr (single (Buffer_from_string s) h))"

text \<open>
  The constructor, with its options \<open>size\<close>, \<open>timeout\<close> and \<open>name\<close> (defaults \<open>0\<close>,
  \<open>0\<close>, \<open>Body\<close>) and the \<open>url\<close> and \<open>headers\<close> of the object it builds.
\<close>

definition Body ::
  "body_source \<Rightarrow> nat \<Rightarrow> nat \<Rightarrow> jsstring \<Rightarrow> jsstring option \<Rightarrow>
   (jsstring \<times> jsstring) list option \<Rightarrow> store \<Rightarrow> js_error + (body_state \<times> store)" where
  "Body b sz tmo nm u hs h =
     (let this = \<lparr>size_B = sz, timeout = tmo, body = b, readableStream = None,
                  disturbed = False, name = nm, url = u, headers = hs\<rparr>
      in if getTypeOfBody b \<noteq> T_ReadableStream then
           (case createReadableStream this h of
              Inl e \<Rightarrow> Inl e
            | Inr (r, h') \<Rightarrow> Inr (this\<lparr>readableStream := r\<rparr>, h'))
         else (case b of
                 BReadableStream w \<Rightarrow> Inr (this\<lparr>readableStream := Some w\<rparr>, h)
               | _ \<Rightarrow> Inr (this, h)))"

section \<open>writeToStream\<close>

text \<open>
  The destination is a Node writable (an HTTP request, a form parser): the chunks written
  to it so far, and whether \<open>end()\<close> was called. A write after the end is dropped. A
  string is written in UTF-8.
\<close>

record dest =
  written :: "bytes list"
  ended :: bool

definition dest_write :: "dest \<Rightarrow> bytes \<Rightarrow> dest" where
  "dest_write d chunk = (if ended d then d else d\<lparr>written := written d @ [chunk]\<rparr>)"

definition dest_end :: "dest \<Rightarrow> dest" where
  "dest_end d = d\<lparr>ended := True\<rparr>"

text \<open>
  \<open>push_all\<close> is the read loop of the \<open>ReadableStream\<close> case run to its end, and the
  flow that \<open>pipe\<close> starts: every chunk is written, and the destination is ended when
  the stream ends (not when it fails or stalls).
\<close>

fun push_all :: "bytes list \<Rightarrow> ending \<Rightarrow> dest \<Rightarrow> dest" where
  "push_all [] e d = (if e = Ended then dest_end d else d)"
| "push_all (chunk # cs) e d = push_all cs e (dest_write d chunk)"

text \<open>
  \<open>Buffer.from(arrayBuffer, byteOffset, length)\<close> is the slice of the buffer, and a
  \<open>RangeError\<close> when the slice is out of bounds.
\<close>

definition Buffer_from_arrayBuffer :: "bytes \<Rightarrow> nat \<Rightarrow> nat \<Rightarrow> js_error + bytes" where
  "Buffer_from_arrayBuffer ab off len =
     (if length ab < off then Inl (RangeError (str ''\"offset\" is outside of buffer bounds''))
      else if length ab - off < len then
        Inl (RangeError (str ''\"length\" is outside of buffer bounds''))
      else Inr (take len (drop off ab)))"

definition writeToStream ::
  "dest \<Rightarrow> body_state \<Rightarrow> store \<Rightarrow> js_error + (dest \<times> body_state \<times> store)" where
  "writeToStream d inst h =
     (case getInstanceBody inst of
        BNull \<Rightarrow> Inr (dest_end d, inst, h)
      | BStream n \<Rightarrow>
          (case node_items h n of (cs, e) \<Rightarrow> Inr (push_all cs e d, inst, flow n h))
      | BReadableStream w \<Rightarrow>
          (case tee w h of
             Inl err \<Rightarrow> Inl err
           | Inr ((out1, out2), h1) \<Rightarrow>
               (case getReader out2 h1 of
                  Inl err \<Rightarrow> Inl err
                | Inr ((cs, e), h2) \<Rightarrow>
                    Inr (push_all cs e d, inst\<lparr>body := BReadableStream out1\<rparr>, h2)))
      | BString s \<Rightarrow> Inr (dest_end (dest_write d (Buffer_from_string s)), inst, h)
      | BBlob b \<Rightarrow> Inr (dest_end (dest_write d (blob_bytes b)), inst, h)
      | BBuffer b \<Rightarrow> Inr (dest_end (dest_write d b), inst, h)
      | BArrayBuffer b \<Rightarrow> Inr (dest_end (dest_write d b), inst, h)
      | BArrayBufferView v \<Rightarrow>
          (case Buffer_from_arrayBuffer (buffer v) (byteOffset v) (byteLength v) of
             Inl err \<Rightarrow> Inl err
           | Inr b \<Rightarrow> Inr (dest_end (dest_write d b), inst, h))
      | BFormData f \<Rightarrow>
          (case stream f of
             None \<Rightarrow>
               Inl (TypeError (str ''Cannot read properties of undefined (reading ''
                      @ quoted (str ''pipe'') @ str '')''))
           | Some (cs, e) \<Rightarrow> Inr (push_all cs e d, inst, h))
      | BURLSearchParams s \<Rightarrow> Inr (dest_end (dest_write d (Buffer_from_string s)), inst, h)
      | BOther s \<Rightarrow> Inr (dest_end (dest_write d (Buffer_from_string s)), inst, h))"

section \<open>consumeBody\<close>

text \<open>
  The promise of \<open>consumeBody\<close> settles in later turns of the event loop, so the model
  is a machine: its state holds the variables of the closure (\<open>buffers\<close>, \<open>totalBytes\<close>,
  \<open>timedOut\<close>, \<open>resTimeout\<close>), the promise, what the reader will still deliver
  (\<open>incoming\<close>, \<open>final\<close>), and whether a \<open>reader.read()\<close> is outstanding. A
  \<open>tick\<close> is one callback the event loop runs: the outstanding read settles, or the
  timer fires. A tick that cannot happen (no read outstanding or nothing to deliver, no
  timer armed) leaves the state as it is.
\<close>

datatype 'a promise = Pending | Resolved 'a | Rejected js_error

datatype timer = Unset | Armed | Fired | Cleared

datatype tick = ReadSettles | TimerFires

record consumption =
  incoming :: "bytes list"
  final :: ending
  reading :: bool
  buffers :: "bytes list"
  totalBytes :: nat
  timedOut :: bool
  resTimeout :: timer
  promise :: "bytes promise"

definition clearTimeout :: "timer \<Rightarrow> timer" where
  "clearTimeout t = (case t of Armed \<Rightarrow> Cleared | _ \<Rightarrow> t)"

text \<open>
  \<open>resolve\<close> and \<open>reject\<close> act on a pending promise only; the two handlers of
  \<open>promise.then\<close> at the end of \<open>consumeBody\<close> then run \<open>clearTimeout\<close> when
  \<open>resTimeout\<close> is set.
\<close>

definition settle :: "bytes promise \<Rightarrow> consumption \<Rightarrow> consumption" where
  "settle r c =
     (if promise c = Pending
      then c\<lparr>promise := r, resTimeout := clearTimeout (resTimeout c)\<rparr> else c)"

text \<open>
  \<open>Buffer.concat(list, totalLength)\<close> fills a buffer of \<open>totalLength\<close> bytes from the
  list, and throws when the length is beyond what a Buffer can hold (\<open>kMaxLength\<close>,
  \<open>2 ^ 32\<close> on Node 16), with the message of Node 16.
\<close>

definition kMaxLength :: nat where
  "kMaxLength = 2 ^ 32"

definition Buffer_concat :: "bytes list \<Rightarrow> nat \<Rightarrow> js_error + bytes" where
  "Buffer_concat list totalLength =
     (if kMaxLength < totalLength then
        Inl (RangeError
               (str ''The value of \"length\" is out of range. It must be >= 0 && <= ''
                  @ show_nat kMaxLength @ str ''. Received '' @ show_sep totalLength))
      else Inr (take totalLength (concat list)
                @ replicate (totalLength - length (concat list)) 0))"

definition on_timeout :: "body_state \<Rightarrow> consumption \<Rightarrow> consumption" where
  "on_timeout inst c =
     settle
       (Rejected (FetchError
          (str ''Response timeout while trying to fetch '' @ tpl (url inst) @ str '' (over ''
             @ show_nat (timeout inst) @ str ''ms)'')
          (str ''body-timeout'') None))
       (c\<lparr>timedOut := True, resTimeout := Fired\<rparr>)"

definition on_done :: "body_state \<Rightarrow> consumption \<Rightarrow> consumption" where
  "on_done inst c =
     (case Buffer_concat (buffers c) (totalBytes c) of
        Inl err \<Rightarrow>
          settle
            (Rejected (FetchError
               (str ''Could not create Buffer from response body for '' @ tpl (url inst)
                  @ str '': '' @ message err)
               (str ''system'') (Some err)))
            c
      | Inr bufferedData \<Rightarrow> settle (Resolved bufferedData) c)"

definition on_chunk :: "body_state \<Rightarrow> bytes \<Rightarrow> consumption \<Rightarrow> consumption" where
  "on_chunk inst chunk c =
     (if size_B inst \<noteq> 0 \<and> totalBytes c + length chunk > size_B inst then
        settle
          (Rejected (FetchError
             (str ''content size at '' @ tpl (url inst) @ str '' over limit: ''
                @ show_nat (size_B inst))
             (str ''max-size'') None))
          c
      else c\<lparr>buffers := buffers c @ [chunk], totalBytes := totalBytes c + length chunk,
              reading := True\<rparr>)"

text \<open>
  The two callbacks of \<open>reader.read().then\<close>. The second rejects with the stream's error
  without looking at \<open>timedOut\<close>; the first returns at once when the timer has fired.
\<close>

definition on_read :: "body_state \<Rightarrow> consumption \<Rightarrow> consumption" where
  "on_read inst c =
     (case incoming c of
        [] \<Rightarrow>
          (case final c of
             Stalled \<Rightarrow> c
           | Failed err \<Rightarrow> settle (Rejected err) (c\<lparr>reading := False\<rparr>)
           | Ended \<Rightarrow>
               (if timedOut c then c\<lparr>reading := False\<rparr>
                else on_done inst (c\<lparr>reading := False\<rparr>)))
      | chunk # rest \<Rightarrow>
          (if timedOut c then c\<lparr>incoming := rest, reading := False\<rparr>
           else on_chunk inst chunk (c\<lparr>incoming := rest, reading := False\<rparr>)))"

definition step :: "body_state \<Rightarrow> tick \<Rightarrow> consumption \<Rightarrow> consumption" where
  "step inst t c =
     (case t of
        ReadSettles \<Rightarrow> (if reading c then on_read inst c else c)
      | TimerFires \<Rightarrow> (if resTimeout c = Armed then on_timeout inst c else c))"

fun run :: "body_state \<Rightarrow> tick list \<Rightarrow> consumption \<Rightarrow> consumption" where
  "run inst [] c = c"
| "run inst (t # ts) c = run inst ts (step inst t c)"

definition settled :: "bytes promise \<Rightarrow> consumption" where
  "settled r =
     \<lparr>incoming = [], final = Stalled, reading = False, buffers = [], totalBytes = 0,
      timedOut = False, resTimeout = Unset, promise = r\<rparr>"

definition start :: "body_state \<Rightarrow> bytes list \<times> ending \<Rightarrow> consumption" where
  "start inst items =
     \<lparr>incoming = fst items, final = snd items, reading = True, buffers = [], totalBytes = 0,
      timedOut = False, resTimeout = (if timeout inst \<noteq> 0 then Armed else Unset),
      promise = Pending\<rparr>"

text \<open>
  \<open>consumeBody sched inst h\<close> is the call followed by the callbacks of \<open>sched\<close>: the
  state of the promise after them, the instance and the store.
\<close>

definition consumeBody ::
  "tick list \<Rightarrow> body_state \<Rightarrow> store \<Rightarrow> consumption \<times> body_state \<times> store" where
  "consumeBody sched inst h =
     (if disturbed inst then
        (settled (Rejected (TypeError (str ''body used already for: '' @ tpl (url inst)))),
         inst, h)
      else
        (let inst' = inst\<lparr>disturbed := True\<rparr> in
         case getInstanceReadableStream inst' of
           None \<Rightarrow> (settled (Resolved []), inst', h)
         | Some readable \<Rightarrow>
             (case getReader readable h of
                Inl err \<Rightarrow> (settled (Rejected err), inst', h)
              | Inr (items, h') \<Rightarrow> (run inst' sched (start inst' items), inst', pull readable h'))))"

section \<open>JSON.parse\<close>

text \<open>
  \<open>JSON.parse\<close> is the platform's: a recursive-descent parser for the JSON grammar. A
  number is kept as its lexeme and an object as its members in order. A failure is the
  input left where the parser stopped, from which \<open>syntax_error\<close> makes the message
  of the \<open>SyntaxError\<close> (Node 16's wording). The fuel bounds the depth of the calls;
  \<open>JSON_parse\<close> gives two units per character, and a character is consumed every two
  levels.
\<close>

datatype json =
    JNull | JBool bool | JNumber jsstring | JString jsstring
  | JArray "json list" | JObject "(jsstring \<times> json) list"

definition ch :: "char \<Rightarrow> 16 word" where
  "ch c = of_nat (of_char c)"

definition is_ws :: "16 word \<Rightarrow> bool" where
  "is_ws c = (c = 0x20 \<or> c = 0x09 \<or> c = 0x0A \<or> c = 0x0D)"

definition is_digit :: "16 word \<Rightarrow> bool" where
  "is_digit c = (0x30 \<le> unat c \<and> unat c \<le> 0x39)"

definition skip_ws :: "jsstring \<Rightarrow> jsstring" where
  "skip_ws s = dropWhile is_ws s"

fun expect_lit :: "jsstring \<Rightarrow> jsstring \<Rightarrow> jsstring + jsstring" where
  "expect_lit [] s = Inr s"
| "expect_lit (l # ls) [] = Inl []"
| "expect_lit (l # ls) (c # cs) = (if c = l then expect_lit ls cs else Inl (c # cs))"

definition parse_exponent :: "jsstring \<Rightarrow> jsstring \<Rightarrow> jsstring + (jsstring \<times> jsstring)" where
  "parse_exponent acc s =
     (case s of
        [] \<Rightarrow> Inr (acc, s)
      | e # cs \<Rightarrow>
          (if e = ch CHR ''e'' \<or> e = ch CHR ''E'' then
             (let sg = (case cs of [] \<Rightarrow> []
                        | g # r \<Rightarrow> if g = ch CHR ''+'' \<or> g = ch CHR ''-'' then [g] else []);
                  cs1 = drop (length sg) cs;
                  ds = takeWhile is_digit cs1
              in if ds = [] then Inl cs1 else Inr (acc @ e # sg @ ds, dropWhile is_digit cs1))
           else Inr (acc, s)))"

definition parse_fraction :: "jsstring \<Rightarrow> jsstring \<Rightarrow> jsstring + (jsstring \<times> jsstring)" where
  "parse_fraction acc s =
     (case s of
        [] \<Rightarrow> Inr (acc, s)
      | d # cs \<Rightarrow>
          (if d = ch CHR ''.'' then
             (let ds = takeWhile is_digit cs
              in if ds = [] then Inl cs
                 else parse_exponent (acc @ d # ds) (dropWhile is_digit cs))
           else parse_exponent acc s))"

definition parse_number :: "jsstring \<Rightarrow> jsstring + (jsstring \<times> jsstring)" where
  "parse_number s =
     (let sg = (case s of [] \<Rightarrow> [] | g # r \<Rightarrow> if g = ch CHR ''-'' then [g] else []);
          s1 = drop (length sg) s
      in case s1 of
           [] \<Rightarrow> Inl []
         | c # cs \<Rightarrow>
             (if c = ch CHR ''0'' then parse_fraction (sg @ [c]) cs
              else if is_digit c then
                parse_fraction (sg @ c # takeWhile is_digit cs) (dropWhile is_digit cs)
              else Inl s1))"

definition hex_digit :: "16 word \<Rightarrow> nat option" where
  "hex_digit c =
     (let x = unat c in
      if 0x30 \<le> x \<and> x \<le> 0x39 then Some (x - 0x30)
      else if 0x41 \<le> x \<and> x \<le> 0x46 then Some (x - 0x41 + 10)
      else if 0x61 \<le> x \<and> x \<le> 0x66 then Some (x - 0x61 + 10)
      else None)"

definition unescape :: "16 word \<Rightarrow> 16 word option" where
  "unescape e =
     (if e = ch CHR ''\"'' \<or> e = ch CHR 0x5C \<or> e = ch CHR ''/'' then Some e
      else if e = ch CHR ''b'' then Some 0x08
      else if e = ch CHR ''f'' then Some 0x0C
      else if e = ch CHR ''n'' then Some 0x0A
      else if e = ch CHR ''r'' then Some 0x0D
      else if e = ch CHR ''t'' then Some 0x09
      else None)"

fun parse_hex4 :: "nat \<Rightarrow> nat \<Rightarrow> jsstring \<Rightarrow> jsstring + (16 word \<times> jsstring)" where
  "parse_hex4 0 acc s = Inr (of_nat acc, s)"
| "parse_hex4 (Suc k) acc [] = Inl []"
| "parse_hex4 (Suc k) acc (c # cs) =
     (case hex_digit c of None \<Rightarrow> Inl (c # cs) | Some d \<Rightarrow> parse_hex4 k (acc * 16 + d) cs)"

function parse_string_chars :: "jsstring \<Rightarrow> jsstring \<Rightarrow> jsstring + (jsstring \<times> jsstring)" where
  "parse_string_chars acc [] = Inl []"
| "parse_string_chars acc (c # cs) =
     (if c = ch CHR ''\"'' then Inr (acc, cs)
      else if c = ch CHR 0x5C then
        (case cs of
           [] \<Rightarrow> Inl []
         | e # cs' \<Rightarrow>
             (if e = ch CHR ''u'' then
                (case parse_hex4 4 0 cs' of
                   Inl f \<Rightarrow> Inl f
                 | Inr (v, r) \<Rightarrow> parse_string_chars (acc @ [v]) r)
              else (case unescape e of
                      None \<Rightarrow> Inl (e # cs')
                    | Some v \<Rightarrow> parse_string_chars (acc @ [v]) cs')))
      else if unat c < 0x20 then Inl (c # cs)
      else parse_string_chars (acc @ [c]) cs)"
  by pat_completeness auto
termination
proof -
  have shorter: "length r \<le> length s" if "parse_hex4 k acc s = Inr (v, r)" for k acc s v r
    using that by (induction k acc s rule: parse_hex4.induct) (auto split: option.splits)
  show ?thesis
    by (relation "measure (\<lambda>(acc, s). length s)") (auto dest: shorter)
qed

fun parse_value :: "nat \<Rightarrow> jsstring \<Rightarrow> jsstring + (json \<times> jsstring)"
  and parse_elements :: "nat \<Rightarrow> json list \<Rightarrow> jsstring \<Rightarrow> jsstring + (json \<times> jsstring)"
  and parse_members ::
    "nat \<Rightarrow> (jsstring \<times> json) list \<Rightarrow> jsstring \<Rightarrow> jsstring + (json \<times> jsstring)" where
  "parse_value 0 s = Inl s"
| "parse_value (Suc n) s =
     (case skip_ws s of
        [] \<Rightarrow> Inl []
      | c # cs \<Rightarrow>
          (if c = ch CHR ''{'' then
             (case skip_ws cs of
                [] \<Rightarrow> Inl []
              | d # r \<Rightarrow> if d = ch CHR ''}'' then Inr (JObject [], r)
                         else parse_members n [] (d # r))
           else if c = ch CHR ''['' then
             (case skip_ws cs of
                [] \<Rightarrow> Inl []
              | d # r \<Rightarrow> if d = ch CHR '']'' then Inr (JArray [], r)
                         else parse_elements n [] (d # r))
           else if c = ch CHR ''\"'' then
             (case parse_string_chars [] cs of
                Inl f \<Rightarrow> Inl f | Inr (v, r) \<Rightarrow> Inr (JString v, r))
           else if c = ch CHR ''t'' then
             (case expect_lit (str ''true'') (c # cs) of
                Inl f \<Rightarrow> Inl f | Inr r \<Rightarrow> Inr (JBool True, r))
           else if c = ch CHR ''f'' then
             (case expect_lit (str ''false'') (c # cs) of
                Inl f \<Rightarrow> Inl f | Inr r \<Rightarrow> Inr (JBool False, r))
           else if c = ch CHR ''n'' then
             (case expect_lit (str ''null'') (c # cs) of
                Inl f \<Rightarrow> Inl f | Inr r \<Rightarrow> Inr (JNull, r))
           else if c = ch CHR ''-'' \<or> is_digit c then
             (case parse_number (c # cs) of
                Inl f \<Rightarrow> Inl f | Inr (v, r) \<Rightarrow> Inr (JNumber v, r))
           else Inl (c # cs)))"
| "parse_elements 0 acc s = Inl s"
| "parse_elements (Suc n) acc s =
     (case parse_value n s of
        Inl f \<Rightarrow> Inl f
      | Inr (v, r) \<Rightarrow>
          (case skip_ws r of
             [] \<Rightarrow> Inl []
           | c # cs \<Rightarrow>
               if c = ch CHR '','' then parse_elements n (acc @ [v]) cs
               else if c = ch CHR '']'' then Inr (JArray (acc @ [v]), cs)
               else Inl (c # cs)))"
| "parse_members 0 acc s = Inl s"
| "parse_members (Suc n) acc s =
     (case skip_ws s of
        [] \<Rightarrow> Inl []
      | q # cs \<Rightarrow>
          if q \<noteq> ch CHR ''\"'' then Inl (q # cs)
          else
            (case parse_string_chars [] cs of
               Inl f \<Rightarrow> Inl f
             | Inr (k, r) \<Rightarrow>
                 (case skip_ws r of
                    [] \<Rightarrow> Inl []
                  | c # cs2 \<Rightarrow>
                      if c \<noteq> ch CHR '':'' then Inl (c # cs2)
                      else
                        (case parse_value n cs2 of
                           Inl f \<Rightarrow> Inl f
                         | Inr (v, r2) \<Rightarrow>
                             (case skip_ws r2 of
                                [] \<Rightarrow> Inl []
                              | c3 # cs3 \<Rightarrow>
                                  if c3 = ch CHR '','' then parse_members n (acc @ [(k, v)]) cs3
                                  else if c3 = ch CHR ''}'' then
                                    Inr (JObject (acc @ [(k, v)]), cs3)
                                  else Inl (c3 # cs3))))))"

definition syntax_error :: "jsstring \<Rightarrow> jsstring \<Rightarrow> jsstring" where
  "syntax_error s left =
     (case left of
        [] \<Rightarrow> str ''Unexpected end of JSON input''
      | c # cs \<Rightarrow>
          (if c = ch CHR ''\"'' then str ''Unexpected string''
           else if is_digit c then str ''Unexpected number''
           else str ''Unexpected token '' @ [c])
          @ str '' in JSON at position '' @ show_nat (length s - length left))"

definition JSON_parse :: "jsstring \<Rightarrow> jsstring + json" where
  "JSON_parse s =
     (case parse_value (2 * length s + 2) s of
        Inl left \<Rightarrow> Inl (syntax_error s left)
      | Inr (v, r) \<Rightarrow>
          (case skip_ws r of [] \<Rightarrow> Inr v | c # cs \<Rightarrow> Inl (syntax_error s (c # cs))))"

section \<open>The accessors\<close>

fun and_then :: "'a promise \<Rightarrow> ('a \<Rightarrow> 'b promise) \<Rightarrow> 'b promise" where
  "and_then Pending f = Pending"
| "and_then (Resolved v) f = f v"
| "and_then (Rejected e) f = Rejected e"

text \<open>
  \<open>headers.get(name)\<close> is the value stored under the lower-case name, or \<open>null\<close>.
  \<open>toLowerCase\<close> is written out for the characters whose lower case is ASCII (the
  letters, and the Kelvin sign); the \<open>Blob\<close> constructor drops a type that holds
  anything outside U+0020 to U+007E, and lower-cases it otherwise.
\<close>

definition Headers_get :: "(jsstring \<times> jsstring) list \<Rightarrow> jsstring \<Rightarrow> jsstring option" where
  "Headers_get hs k = map_of hs k"

definition toLowerCase :: "jsstring \<Rightarrow> jsstring" where
  "toLowerCase s =
     map (\<lambda>c. if 0x41 \<le> unat c \<and> unat c \<le> 0x5A then c + 0x20
              else if c = 0x212A then 0x6B else c) s"

definition Blob_new :: "bytes \<Rightarrow> jsstring \<Rightarrow> blob" where
  "Blob_new b t =
     \<lparr>blob_bytes = b,
      blob_type = (if list_all (\<lambda>c. 0x20 \<le> unat c \<and> unat c \<le> 0x7E) t
                   then toLowerCase t else [])\<rparr>"

definition arrayBuffer ::
  "tick list \<Rightarrow> body_state \<Rightarrow> store \<Rightarrow> bytes promise \<times> body_state \<times> store" where
  "arrayBuffer sched inst h =
     (case consumeBody sched inst h of (c, inst', h') \<Rightarrow>
        (and_then (promise c) (\<lambda>buf. Resolved (map (\<lambda>i. buf ! i) [0..<length buf])),
         inst', h'))"

definition blob ::
  "tick list \<Rightarrow> body_state \<Rightarrow> store \<Rightarrow> blob promise \<times> body_state \<times> store" where
  "blob sched inst h =
     (let ct = (case headers inst of
                  None \<Rightarrow> []
                | Some hs \<Rightarrow>
                    (case Headers_get hs (str ''content-type'') of None \<Rightarrow> [] | Some v \<Rightarrow> v))
      in case consumeBody sched inst h of (c, inst', h') \<Rightarrow>
           (and_then (promise c) (\<lambda>buf. Resolved (Blob_new buf (toLowerCase ct))), inst', h'))"

definition json ::
  "tick list \<Rightarrow> body_state \<Rightarrow> store \<Rightarrow> json promise \<times> body_state \<times> store" where
  "json sched inst h =
     (case consumeBody sched inst h of (c, inst', h') \<Rightarrow>
        (and_then (promise c)
           (\<lambda>buffer.
              case JSON_parse (Buffer_toString buffer) of
                Inr v \<Rightarrow> Resolved v
              | Inl m \<Rightarrow>
                  Rejected (FetchError
                    (str ''invalid json response body at '' @ tpl (url inst') @ str '' reason: ''
                       @ m)
                    (str ''invalid-json'') None)),
         inst', h'))"

definition text_B ::
  "tick list \<Rightarrow> body_state \<Rightarrow> store \<Rightarrow> jsstring promise \<times> body_state \<times> store" where
  "text_B sched inst h =
     (case consumeBody sched inst h of (c, inst', h') \<Rightarrow>
        (and_then (promise c) (\<lambda>buffer. Resolved (Buffer_toString buffer)), inst', h'))"

definition buffer_B ::
  "tick list \<Rightarrow> body_state \<Rightarrow> store \<Rightarrow> bytes promise \<times> body_state \<times> store" where
  "buffer_B sched inst h =
     (case consumeBody sched inst h of (c, inst', h') \<Rightarrow> (promise c, inst', h'))"

text \<open>
  \<open>formData\<close> hands the body to the multipart parser of the \<open>busboy\<close> package, which is
  not part of the module: \<open>Busboy ct\<close> is the constructor called with the
  \<open>content-type\<close> header (it throws on a type it does not parse), and gives the form
  that the parser finishes with from the chunks written to it, if it finishes. The body
  is written with \<open>writeToStream\<close>, run to its end.
\<close>

definition formData ::
  "(jsstring option \<Rightarrow> js_error + (bytes list \<Rightarrow> 'f option)) \<Rightarrow> tick list \<Rightarrow> body_state \<Rightarrow>
   store \<Rightarrow> 'f promise \<times> body_state \<times> store" where
  "formData Busboy sched inst h =
     (case consumeBody sched inst h of (c, inst1, h1) \<Rightarrow>
        (case promise c of
           Pending \<Rightarrow> (Pending, inst1, h1)
         | Rejected e \<Rightarrow> (Rejected e, inst1, h1)
         | Resolved buf \<Rightarrow>
             (case headers inst1 of
                None \<Rightarrow>
                  (Rejected (TypeError
                     (str ''Cannot read properties of undefined (reading ''
                        @ quoted (str ''get'') @ str '')'')), inst1, h1)
              | Some hs \<Rightarrow>
                  (case Busboy (Headers_get hs (str ''content-type'')) of
                     Inl e \<Rightarrow> (Rejected e, inst1, h1)
                   | Inr busboy \<Rightarrow>
                       (case writeToStream \<lparr>written = [], ended = False\<rparr> inst1 h1 of
                          Inl e \<Rightarrow> (Rejected e, inst1, h1)
                        | Inr (d, inst2, h2) \<Rightarrow>
                            ((if ended d then
                                (case busboy (written d) of
                                   Some formdata \<Rightarrow> Resolved formdata
                                 | None \<Rightarrow> Pending)
                              else Pending),
                             inst2, h2))))))"

text \<open>The six accessors under one name, to speak of any of them.\<close>

datatype accessor = A_arrayBuffer | A_blob | A_text | A_json | A_buffer | A_formData

datatype 'f js_value =
    V_ArrayBuffer bytes | V_Blob blob | V_text jsstring | V_json json | V_Buffer bytes
  | V_FormData 'f

fun lift_result ::
  "('a \<Rightarrow> 'f js_value) \<Rightarrow> 'a promise \<times> body_state \<times> store \<Rightarrow>
   'f js_value promise \<times> body_state \<times> store" where
  "lift_result k (p, inst, h) = (and_then p (\<lambda>v. Resolved (k v)), inst, h)"

fun accessor_call ::
  "(jsstring option \<Rightarrow> js_error + (bytes list \<Rightarrow> 'f option)) \<Rightarrow> accessor \<Rightarrow> tick list \<Rightarrow>
   body_state \<Rightarrow> store \<Rightarrow> 'f js_value promise \<times> body_state \<times> store" where
  "accessor_call B A_arrayBuffer sched inst h = lift_result V_ArrayBuffer (arrayBuffer sched inst h)"
| "accessor_call B A_blob sched inst h = lift_result V_Blob (blob sched inst h)"
| "accessor_call B A_text sched inst h = lift_result V_text (text_B sched inst h)"
| "accessor_call B A_json sched inst h = lift_result V_json (json sched inst h)"
| "accessor_call B A_buffer sched inst h = lift_result V_Buffer (buffer_B sched inst h)"
| "accessor_call B A_formData sched inst h = lift_result V_FormData (formData B sched inst h)"

section \<open>cloneBody\<close>

text \<open>
  The result is the body source for the clone: a fresh \<open>PassThrough\<close>, the second
  branch of a \<open>tee\<close>, or the source itself. A Node stream is piped into both
  \<open>PassThrough\<close>s, so the one that nobody reads pauses it once it is full.
\<close>

definition cloneBody ::
  "body_state \<Rightarrow> store \<Rightarrow> js_error + (body_source \<times> body_state \<times> store)" where
  "cloneBody inst h =
     (if bodyUsed inst then Inl (Error (str ''cannot clone body after it is used''))
      else
        (case getInstanceBody inst of
           BStream b \<Rightarrow>
             (case new_PassThrough h of (p1, h1) \<Rightarrow>
              case new_PassThrough h1 of (p2, h2) \<Rightarrow>
                (let inst1 = inst\<lparr>body := BStream p1\<rparr> in
                 case createReadableStream inst1 h2 of
                   Inl e \<Rightarrow> Inl e
                 | Inr (r, h3) \<Rightarrow>
                     Inr (BStream p2, inst1\<lparr>readableStream := r\<rparr>,
                          flow b (pipe b p2 (pipe b p1 h3)))))
         | BReadableStream b \<Rightarrow>
             (case tee b h of
                Inl e \<Rightarrow> Inl e
              | Inr ((p1, p2), h1) \<Rightarrow>
                  Inr (BReadableStream p2,
                       inst\<lparr>body := BReadableStream p1, readableStream := Some p1\<rparr>, h1))
         | b \<Rightarrow> Inr (b, inst, h)))"

section \<open>Instances and stores to evaluate on\<close>

text \<open>
  \<open>bare b\<close> holds the fields as the constructor sets them before it makes the stream,
  with the default options; \<open>str_bytes\<close> is a literal in UTF-8; \<open>no_Busboy\<close> is a form
  parser that accepts no content type; \<open>no_streams\<close> is the store with no stream in it;
  \<open>one_web cs e\<close> holds one web stream, and \<open>web_instance sz tmo\<close> is what the
  constructor makes over it with the options \<open>size\<close> and \<open>timeout\<close>; \<open>one_node cs e\<close>
  and \<open>node_instance\<close> are the store and the instance after the constructor has run on a
  Node stream with the default options.
\<close>

definition bare :: "body_source \<Rightarrow> body_state" where
  "bare b =
     \<lparr>size_B = 0, timeout = 0, body = b, readableStream = None, disturbed = False,
      name = str ''Body'', url = None, headers = None\<rparr>"

definition str_bytes :: "string \<Rightarrow> bytes" where
  "str_bytes s = Buffer_from_string (str s)"

definition no_Busboy :: "jsstring option \<Rightarrow> js_error + (bytes list \<Rightarrow> unit option)" where
  "no_Busboy ct = Inl (Error (str ''Missing Content-Type''))"

definition one_web :: "bytes list \<Rightarrow> ending \<Rightarrow> store" where
  "one_web cs e = \<lparr>nodes = [], webs = [\<lparr>wsrc = WOwn cs e, wlocked = False\<rparr>]\<rparr>"

definition web_instance :: "nat \<Rightarrow> nat \<Rightarrow> body_state" where
  "web_instance sz tmo =
     (bare (BReadableStream 0))\<lparr>size_B := sz, timeout := tmo, readableStream := Some 0\<rparr>"



definition no_streams :: store where
  "no_streams = \<lparr>nodes = [], webs = []\<rparr>"

section \<open>Notions used to state the properties of consumeBody\<close>

text \<open>
  \<open>rejected_kind p\<close> is the \<open>type\<close> of the FetchError that \<open>p\<close> is rejected with, if
  any. \<open>live_reads inst sched\<close> counts the read callbacks of \<open>sched\<close> that run while the
  timer cannot have fired: all of them without a timeout, those before the first
  \<open>TimerFires\<close> with one.

  A consumption is \<open>live\<close> while its promise is pending: a read is outstanding, the
  timer is armed if there is a timeout, and \<open>totalBytes\<close> is the size of \<open>buffers\<close>. It is
  \<open>over\<close> once the promise has settled: either the timer fired, or no read is
  outstanding and the timer, if there was one, is cleared.
\<close>

definition rejected_kind :: "'a promise \<Rightarrow> jsstring option" where
  "rejected_kind p = (case p of Rejected err \<Rightarrow> kind err | _ \<Rightarrow> None)"


definition live :: "body_state \<Rightarrow> consumption \<Rightarrow> bool" where
  "live inst c =
     (promise c = Pending \<and> reading c \<and> \<not> timedOut c \<and>
      resTimeout c = (if timeout inst \<noteq> 0 then Armed else Unset) \<and>
      totalBytes c = sum_list (map length (buffers c)))"

definition over :: "body_state \<Rightarrow> consumption \<Rightarrow> bool" where
  "over inst c =
     (promise c \<noteq> Pending \<and>
      (if timedOut c
       then resTimeout c = Fired \<and> rejected_kind (promise c) = Some (str ''body-timeout'')
       else \<not> reading c \<and> resTimeout c = (if timeout inst \<noteq> 0 then Cleared else Unset)))"

section \<open>Notions used to state the properties of cloneBody\<close>


definition cloned_node :: "bytes list \<Rightarrow> store" where
  "cloned_node cs =
     \<lparr>nodes = [\<lparr>nitems = cs, nending = Ended, nflowed = True, nfed = None\<rparr>,
               \<lparr>nitems = cs, nending = Ended, nflowed = False, nfed = Some 0\<rparr>,
               \<lparr>nitems = cs, nending = Ended, nflowed = False, nfed = Some 0\<rparr>],
      webs = [\<lparr>wsrc = WNode 0 None True, wlocked = False\<rparr>,
              \<lparr>wsrc = WNode 1 None True, wlocked = False\<rparr>,
              \<lparr>wsrc = WNode 2 None True, wlocked = False\<rparr>]\<rparr>"


definition node_original :: body_state where
  "node_original = (bare (BStream 1))\<lparr>readableStream := Some 1\<rparr>"





section \<open>Content negotiation: the tables\<close>

text \<open>
  C6. The inferred Content-Type: \<open>text/plain;charset=UTF-8\<close> for a string and for any
  other object, \<open>application/x-www-form-urlencoded;charset=UTF-8\<close> for url-encoded
  parameters, the blob's own type for a blob (none when the type is empty),
  \<open>multipart/form-data;boundary=\<close> followed by the form's boundary for form data, and
  none for every other shape of body source.
\<close>

theorem extractContentType_table:
  "(getTypeOfBody (body inst) = T_String \<or> getTypeOfBody (body inst) = T_other \<longrightarrow>
      extractContentType inst = Some (str ''text/plain;charset=UTF-8''))
   \<and> (getTypeOfBody (body inst) = T_URLSearchParams \<longrightarrow>
      extractContentType inst = Some (str ''application/x-www-form-urlencoded;charset=UTF-8''))
   \<and> (\<forall>b. body inst = BBlob b \<longrightarrow>
      extractContentType inst = (if blob_type b = [] then None else Some (blob_type b)))
   \<and> (\<forall>f. body inst = BFormData f \<longrightarrow>
      extractContentType inst = Some (str ''multipart/form-data;boundary='' @ tpl (boundary f)))
   \<and> (getTypeOfBody (body inst) \<notin> {T_String, T_other, T_URLSearchParams, T_Blob, T_FormData} \<longrightarrow>
      extractContentType inst = None)"
  by (cases "body inst") (simp_all add: extractContentType_def getInstanceBody_def)

theorem extractContentType_table_witness:
  "extractContentType (bare (BString (str ''a=1''))) = Some (str ''text/plain;charset=UTF-8'')
   \<and> extractContentType (bare (BOther (str ''[object Object]'')))
       = Some (str ''text/plain;charset=UTF-8'')
   \<and> extractContentType (bare (BURLSearchParams (str ''a=1'')))
       = Some (str ''application/x-www-form-urlencoded;charset=UTF-8'')
   \<and> extractContentType (bare (BBlob \<lparr>blob_bytes = [0x61], blob_type = str ''text/css''\<rparr>))
       = Some (str ''text/css'')
   \<and> extractContentType (bare (BBlob \<lparr>blob_bytes = [0x61], blob_type = []\<rparr>)) = None
   \<and> extractContentType (bare (BFormData
         \<lparr>fd_toString = str ''[object FormData]'', boundary = Some (str ''xyz''), stream = None,
          lengthRetrievers = None, hasKnownLength = None, getLengthSync = 0\<rparr>))
       = Some (str ''multipart/form-data;boundary=xyz'')
   \<and> extractContentType (bare (BBuffer [0x61])) = None
   \<and> extractContentType (bare BNull) = None"
  using extractContentType_table [of "bare (BString (str ''a=1''))"]
    extractContentType_table [of "bare (BOther (str ''[object Object]''))"]
    extractContentType_table [of "bare (BURLSearchParams (str ''a=1''))"]
    extractContentType_table [of "bare (BBlob \<lparr>blob_bytes = [0x61], blob_type = str ''text/css''\<rparr>)"]
    extractContentType_table [of "bare (BBlob \<lparr>blob_bytes = [0x61], blob_type = []\<rparr>)"]
    extractContentType_table [of "bare (BFormData
         \<lparr>fd_toString = str ''[object FormData]'', boundary = Some (str ''xyz''), stream = None,
          lengthRetrievers = None, hasKnownLength = None, getLengthSync = 0\<rparr>)"]
    extractContentType_table [of "bare (BBuffer [0x61])"]
    extractContentType_table [of "bare BNull"]
  by (simp add: bare_def str_def tpl_def)

text \<open>
  C7. The total byte count: \<open>0\<close> for \<open>null\<close>; the UTF-8 byte length for a string and
  for any other object; the byte length of the stringified parameters; the blob's size;
  the buffer's length; \<open>byteLength\<close> for an array buffer and for a view; for form data
  the length the form reports when it reports one, and none otherwise; none for both
  kinds of stream.
\<close>

theorem getTotalBytes_table:
  "(body inst = BNull \<longrightarrow> getTotalBytes inst = Some 0)
   \<and> (\<forall>s. body inst = BString s \<or> body inst = BOther s \<or> body inst = BURLSearchParams s \<longrightarrow>
      getTotalBytes inst = Some (length (Buffer_from_string s)))
   \<and> (\<forall>b. body inst = BBlob b \<longrightarrow> getTotalBytes inst = Some (length (blob_bytes b)))
   \<and> (\<forall>b. body inst = BBuffer b \<or> body inst = BArrayBuffer b \<longrightarrow>
      getTotalBytes inst = Some (length b))
   \<and> (\<forall>v. body inst = BArrayBufferView v \<longrightarrow> getTotalBytes inst = Some (byteLength v))
   \<and> (\<forall>f. body inst = BFormData f \<longrightarrow>
      getTotalBytes inst =
        (if lengthRetrievers f = Some 0 \<or> hasKnownLength f = Some True
         then Some (getLengthSync f) else None))
   \<and> (getTypeOfBody (body inst) = T_Stream \<or> getTypeOfBody (body inst) = T_ReadableStream \<longrightarrow>
      getTotalBytes inst = None)"
  by (cases "body inst")
     (simp_all add: getTotalBytes_def getInstanceBody_def Buffer_byteLength_def)

theorem getTotalBytes_table_witness:
  "getTotalBytes (bare BNull) = Some 0
   \<and> getTotalBytes (bare (BString [0x61, 0xE9, 0x20AC])) = Some 6
   \<and> getTotalBytes (bare (BOther (str ''[object Object]''))) = Some 15
   \<and> getTotalBytes (bare (BURLSearchParams (str ''a=1''))) = Some 3
   \<and> getTotalBytes (bare (BBlob \<lparr>blob_bytes = [1, 2], blob_type = []\<rparr>)) = Some 2
   \<and> getTotalBytes (bare (BBuffer [1, 2, 3])) = Some 3
   \<and> getTotalBytes (bare (BArrayBuffer [1, 2, 3, 4])) = Some 4
   \<and> getTotalBytes (bare (BArrayBufferView \<lparr>buffer = [1, 2, 3], byteOffset = 1, byteLength = 2\<rparr>))
       = Some 2
   \<and> getTotalBytes (bare (BFormData
         \<lparr>fd_toString = str ''[object FormData]'', boundary = Some (str ''xyz''), stream = None,
          lengthRetrievers = None, hasKnownLength = Some True, getLengthSync = 42\<rparr>)) = Some 42
   \<and> getTotalBytes (bare (BFormData
         \<lparr>fd_toString = str ''[object FormData]'', boundary = Some (str ''xyz''), stream = None,
          lengthRetrievers = Some 1, hasKnownLength = None, getLengthSync = 42\<rparr>)) = None
   \<and> getTotalBytes (bare (BStream 0)) = None
   \<and> getTotalBytes (bare (BReadableStream 0)) = None"
  using getTotalBytes_table [of "bare BNull"]
    getTotalBytes_table [of "bare (BString [0x61, 0xE9, 0x20AC])"]
    getTotalBytes_table [of "bare (BOther (str ''[object Object]''))"]
    getTotalBytes_table [of "bare (BURLSearchParams (str ''a=1''))"]
    getTotalBytes_table [of "bare (BBlob \<lparr>blob_bytes = [1, 2], blob_type = []\<rparr>)"]
    getTotalBytes_table [of "bare (BBuffer [1, 2, 3])"]
    getTotalBytes_table [of "bare (BArrayBuffer [1, 2, 3, 4])"]
    getTotalBytes_table [of "bare (BArrayBufferView \<lparr>buffer = [1, 2, 3], byteOffset = 1, byteLength = 2\<rparr>)"]
    getTotalBytes_table [of "bare (BFormData
         \<lparr>fd_toString = str ''[object FormData]'', boundary = Some (str ''xyz''), stream = None,
          lengthRetrievers = None, hasKnownLength = Some True, getLengthSync = 42\<rparr>)"]
    getTotalBytes_table [of "bare (BFormData
         \<lparr>fd_toString = str ''[object FormData]'', boundary = Some (str ''xyz''), stream = None,
          lengthRetrievers = Some 1, hasKnownLength = None, getLengthSync = 42\<rparr>)"]
    getTotalBytes_table [of "bare (BStream 0)"]
    getTotalBytes_table [of "bare (BReadableStream 0)"]
  by (simp add: bare_def str_def utf8_cp_def is_high_surrogate_def is_low_surrogate_def)

section \<open>The adapter from body source to byte stream\<close>

text \<open>
  What \<open>createReadableStream\<close> puts in the stream for a view and for form data, for any
  instance and store.
\<close>

lemma createReadableStream_view:
  "body inst = BArrayBufferView v \<Longrightarrow>
   createReadableStream inst h =
     Inr (Some (length (webs h)),
          h\<lparr>webs := webs h @ [\<lparr>wsrc = WOwn (if buffer v = [] then [] else [buffer v]) Ended,
                                wlocked = False\<rparr>]\<rparr>)"
  by (simp add: createReadableStream_def getInstanceBody_def single_def new_web_def)

lemma writeToStream_view:
  "body inst = BArrayBufferView v \<Longrightarrow> byteOffset v + byteLength v \<le> length (buffer v) \<Longrightarrow>
   writeToStream d inst h =
     Inr (dest_end (dest_write d (take (byteLength v) (drop (byteOffset v) (buffer v)))), inst, h)"
  by (simp add: writeToStream_def getInstanceBody_def Buffer_from_arrayBuffer_def)

lemma createReadableStream_form:
  "body inst = BFormData f \<Longrightarrow>
   createReadableStream inst h =
     Inr (Some (length (webs h)),
          h\<lparr>webs := webs h @
            [\<lparr>wsrc = WOwn (if Buffer_from_string (fd_toString f) = [] then []
                            else [Buffer_from_string (fd_toString f)]) Ended,
              wlocked = False\<rparr>]\<rparr>)"
  by (simp add: createReadableStream_def getInstanceBody_def single_def new_web_def)

lemma writeToStream_form:
  "body inst = BFormData f \<Longrightarrow> stream f = Some (cs, e) \<Longrightarrow>
   writeToStream d inst h = Inr (push_all cs e d, inst, h)"
  by (simp add: writeToStream_def getInstanceBody_def)

text \<open>
  C4. A view of one byte at offset 1 over the three bytes \<open>48 69 21\<close>: the
  specification asks for the stream to hold the byte \<open>69\<close>. \<open>createReadableStream\<close> wraps \<open>body.buffer\<close>
  and so puts all three bytes in the stream, and the body is consumed as three bytes
  while \<open>getTotalBytes\<close> announces one; \<open>writeToStream\<close> passes the offset and the
  length and writes the byte \<open>69\<close>.
\<close>

theorem view_stream_ignores_offset_and_length:
  "createReadableStream
     (bare (BArrayBufferView \<lparr>buffer = [0x48, 0x69, 0x21], byteOffset = 1, byteLength = 1\<rparr>))
     no_streams
   = Inr (Some 0,
          \<lparr>nodes = [], webs = [\<lparr>wsrc = WOwn [[0x48, 0x69, 0x21]] Ended, wlocked = False\<rparr>]\<rparr>)
   \<and> (\<exists>inst h.
        Body (BArrayBufferView \<lparr>buffer = [0x48, 0x69, 0x21], byteOffset = 1, byteLength = 1\<rparr>)
          0 0 (str ''Body'') None None no_streams = Inr (inst, h)
        \<and> getTotalBytes inst = Some 1
        \<and> fst (buffer_B [ReadSettles, ReadSettles] inst h) = Resolved [0x48, 0x69, 0x21])
   \<and> writeToStream \<lparr>written = [], ended = False\<rparr>
        (bare (BArrayBufferView \<lparr>buffer = [0x48, 0x69, 0x21], byteOffset = 1, byteLength = 1\<rparr>))
        no_streams
      = Inr (\<lparr>written = [[0x69]], ended = True\<rparr>,
             bare (BArrayBufferView \<lparr>buffer = [0x48, 0x69, 0x21], byteOffset = 1, byteLength = 1\<rparr>),
             no_streams)"
  by (simp add: createReadableStream_def getInstanceBody_def single_def new_web_def bare_def
      no_streams_def Body_def getTotalBytes_def buffer_B_def consumeBody_def
      getInstanceReadableStream_def getReader_def web_items_def lock_def pull_def start_def
      step_def on_read_def on_chunk_def on_done_def Buffer_concat_def kMaxLength_def settle_def
      clearTimeout_def writeToStream_def Buffer_from_arrayBuffer_def dest_write_def dest_end_def)

text \<open>
  C5. A form whose own stream carries the multipart encoding in two chunks: the
  specification asks for the body's stream to carry that encoding. \<open>createReadableStream\<close> encodes
  \<open>body.toString()\<close>, so \<open>text()\<close> gives \<open>[object FormData]\<close>;
  \<open>writeToStream\<close> pipes \<open>body.stream\<close> and writes the two chunks.
\<close>

theorem form_stream_is_stringified:
  "(\<exists>inst h.
      Body (BFormData
        \<lparr>fd_toString = str ''[object FormData]'', boundary = Some (str ''b''),
         stream = Some ([str_bytes ''--b'', str_bytes ''a=1''], Ended),
         lengthRetrievers = None, hasKnownLength = None, getLengthSync = 0\<rparr>)
        0 0 (str ''Body'') None None no_streams = Inr (inst, h)
      \<and> fst (text_B [ReadSettles, ReadSettles] inst h) = Resolved (str ''[object FormData]''))
   \<and> (\<exists>inst h.
      writeToStream \<lparr>written = [], ended = False\<rparr>
        (bare (BFormData
          \<lparr>fd_toString = str ''[object FormData]'', boundary = Some (str ''b''),
           stream = Some ([str_bytes ''--b'', str_bytes ''a=1''], Ended),
           lengthRetrievers = None, hasKnownLength = None, getLengthSync = 0\<rparr>))
        no_streams
      = Inr (\<lparr>written = [str_bytes ''--b'', str_bytes ''a=1''], ended = True\<rparr>, inst, h))"
  by (simp add: createReadableStream_def getInstanceBody_def single_def new_web_def bare_def
      no_streams_def Body_def text_B_def consumeBody_def
      getInstanceReadableStream_def getReader_def web_items_def lock_def pull_def start_def
      step_def on_read_def on_chunk_def on_done_def Buffer_concat_def kMaxLength_def settle_def
      clearTimeout_def writeToStream_def dest_write_def dest_end_def str_def str_bytes_def
      utf8_cp_def is_high_surrogate_def is_low_surrogate_def Buffer_toString_def utf16_cp_def)

section \<open>Single use\<close>

lemma consumeBody_instance:
  "fst (snd (consumeBody sched inst h)) = inst\<lparr>disturbed := True\<rparr>"
  by (simp add: consumeBody_def getInstanceReadableStream_def Let_def
      split: option.splits sum.splits prod.splits)

lemma consumeBody_used:
  "disturbed inst \<Longrightarrow>
   consumeBody sched inst h =
     (settled (Rejected (TypeError (str ''body used already for: '' @ tpl (url inst)))), inst, h)"
  by (simp add: consumeBody_def)

lemma writeToStream_instance:
  "writeToStream d inst h = Inr (d', inst', h') \<Longrightarrow>
   disturbed inst' = disturbed inst \<and> url inst' = url inst \<and>
   readableStream inst' = readableStream inst"
  by (auto simp: writeToStream_def getInstanceBody_def
      split: body_source.splits sum.splits prod.splits option.splits)

lemma formData_instance:
  "disturbed (fst (snd (formData B sched inst h))) \<and>
   url (fst (snd (formData B sched inst h))) = url inst"
proof -
  obtain c inst1 h1 where c: "consumeBody sched inst h = (c, inst1, h1)"
    by (cases "consumeBody sched inst h") auto
  then have inst1: "inst1 = inst\<lparr>disturbed := True\<rparr>"
    using consumeBody_instance [of sched inst h] by simp
  show ?thesis
    using c inst1
    by (auto simp: formData_def split: promise.splits option.splits sum.splits prod.splits
        dest!: writeToStream_instance)
qed

lemma accessor_call_instance:
  "disturbed (fst (snd (accessor_call B a sched inst h))) \<and>
   url (fst (snd (accessor_call B a sched inst h))) = url inst"
proof (cases a)
  case A_formData
  then show ?thesis
    using formData_instance [of B sched inst h]
    by (cases "formData B sched inst h") auto
qed (use consumeBody_instance [of sched inst h] in
      \<open>auto simp: arrayBuffer_def blob_def text_B_def json_def buffer_B_def Let_def
         split: prod.splits\<close>)

lemma accessor_call_used:
  "disturbed inst \<Longrightarrow>
   accessor_call B a sched inst h =
     (Rejected (TypeError (str ''body used already for: '' @ tpl (url inst))), inst, h)"
  by (cases a)
     (simp_all add: consumeBody_used settled_def arrayBuffer_def blob_def text_B_def json_def
        buffer_B_def formData_def Let_def)

text \<open>
  C1. Once any of the six accessors has been called, whatever its promise does (\<open>p\<close> may
  be pending, resolved or rejected), \<open>bodyUsed\<close> is true; every further call of an
  accessor rejects with the type error \<open>body used already for: \<close> and the url, and leaves
  the instance and the store as they are (so the same holds after it); and \<open>cloneBody\<close>
  throws \<open>cannot clone body after it is used\<close>.
\<close>

theorem accessor_uses_body:
  "accessor_call B a sched inst h = (p, inst', h') \<Longrightarrow>
   bodyUsed inst'
   \<and> (\<forall>a2 sched2.
        accessor_call B a2 sched2 inst' h' =
          (Rejected (TypeError (str ''body used already for: '' @ tpl (url inst'))), inst', h'))
   \<and> cloneBody inst' h' = Inl (Error (str ''cannot clone body after it is used''))"
  using accessor_call_instance [of B a sched inst h]
  by (simp add: bodyUsed_def accessor_call_used cloneBody_def)

theorem accessor_uses_body_witness:
  "bodyUsed (fst (snd (accessor_call no_Busboy A_json [] (bare BNull) no_streams)))
   \<and> fst (accessor_call no_Busboy A_text [ReadSettles]
        (fst (snd (accessor_call no_Busboy A_json [] (bare BNull) no_streams)))
        (snd (snd (accessor_call no_Busboy A_json [] (bare BNull) no_streams))))
      = Rejected (TypeError (str ''body used already for: undefined''))
   \<and> cloneBody
        (fst (snd (accessor_call no_Busboy A_json [] (bare BNull) no_streams)))
        (snd (snd (accessor_call no_Busboy A_json [] (bare BNull) no_streams)))
      = Inl (Error (str ''cannot clone body after it is used''))"
proof -
  let ?r = "accessor_call no_Busboy A_json [] (bare BNull) no_streams"
  have r: "?r = (fst ?r, fst (snd ?r), snd (snd ?r))"
    by (simp only: prod.collapse)
  have u: "url (fst (snd ?r)) = None"
    using accessor_call_instance [of no_Busboy A_json "[]" "bare BNull" no_streams]
    by (simp add: bare_def)
  note t = accessor_uses_body [OF r]
  from t have b:
    "accessor_call no_Busboy A_text [ReadSettles] (fst (snd ?r)) (snd (snd ?r)) =
       (Rejected (TypeError (str ''body used already for: '' @ tpl (url (fst (snd ?r))))),
        fst (snd ?r), snd (snd ?r))"
    by blast
  from t b u show ?thesis
    by (simp add: tpl_def str_def del: accessor_call.simps)
qed

section \<open>The null body\<close>

text \<open>
  C3. A Body constructed with a null source has no stream; consuming it gives the empty
  buffer at once, so \<open>text()\<close> resolves to the empty string, and \<open>json()\<close> rejects
  with a FetchError of type \<open>invalid-json\<close>: parsing the empty string fails.
\<close>

theorem null_body_text_and_json:
  "\<exists>inst. Body BNull sz tmo nm u hs h = Inr (inst, h)
     \<and> readableStream inst = None
     \<and> fst (buffer_B sched inst h) = Resolved []
     \<and> fst (text_B sched inst h) = Resolved []
     \<and> fst (json sched inst h) =
         Rejected (FetchError
           (str ''invalid json response body at '' @ tpl u
              @ str '' reason: Unexpected end of JSON input'')
           (str ''invalid-json'') None)"
  by (simp add: Body_def createReadableStream_def getInstanceBody_def consumeBody_def
      getInstanceReadableStream_def settled_def buffer_B_def text_B_def json_def
      Buffer_toString_def JSON_parse_def syntax_error_def skip_ws_def str_def)

section \<open>writeToStream on a web stream\<close>

lemma tee_result:
  "tee w h = Inr ((p1, p2), h') \<Longrightarrow>
   w < length (webs h) \<and> \<not> wlocked (webs h ! w) \<and> p1 = length (webs h) \<and>
   p2 = Suc (length (webs h)) \<and> nodes h' = nodes h \<and>
   webs h' = (webs h)[w := (webs h ! w)\<lparr>wlocked := True\<rparr>]
             @ [\<lparr>wsrc = wsrc (webs h ! w), wlocked = False\<rparr>,
                \<lparr>wsrc = wsrc (webs h ! w), wlocked = False\<rparr>]"
  by (auto simp: tee_def new_web_def lock_def split: if_splits)

text \<open>
  After \<open>writeToStream\<close> on a web stream the instance is not disturbed and its source is
  the branch nobody reads, but \<open>readableStream\<close> is still the stream that \<open>tee\<close> locked:
  \<open>getReader\<close> throws in \<open>consumeBody\<close>, whatever happens afterwards.
\<close>

lemma writeToStream_web_then_consume:
  assumes "body inst = BReadableStream w" and "readableStream inst = Some w"
    and "\<not> disturbed inst" and "writeToStream d inst h = Inr (d', inst', h')"
  shows "\<not> disturbed inst' \<and> body inst' = BReadableStream (length (webs h)) \<and>
         \<not> wlocked (webs h' ! length (webs h)) \<and>
         promise (fst (consumeBody sched inst' h')) = Rejected (TypeError locked_message)"
proof -
  from assms(1,4) obtain out1 out2 h1 cs e h2 where
    t: "tee w h = Inr ((out1, out2), h1)" and
    g: "getReader out2 h1 = Inr ((cs, e), h2)" and
    r: "inst' = inst\<lparr>body := BReadableStream out1\<rparr>" "h' = h2"
    by (auto simp: writeToStream_def getInstanceBody_def split: sum.splits prod.splits)
  note tr = tee_result [OF t]
  from g have h2: "h2 = lock out2 h1"
    by (auto simp: getReader_def split: if_splits)
  have w: "w < length (webs h')" "wlocked (webs h' ! w)"
    using tr r(2) h2 by (auto simp: lock_def nth_append nth_list_update)
  have u: "\<not> wlocked (webs h' ! length (webs h))"
    using tr r(2) h2 by (auto simp: lock_def nth_append nth_list_update)
  show ?thesis
    using assms(2,3) r(1) w u tr
    by (simp add: consumeBody_def getInstanceReadableStream_def getReader_def settled_def)
qed

text \<open>
  C10. A Body over a web stream of two chunks. Before anything is written the body can
  be consumed: \<open>buffer()\<close> gives both bytes. \<open>writeToStream\<close> tees the source, writes
  one branch (both chunks reach the destination) and makes the other branch, stream 1,
  the body source; the disturbed flag stays false. The body should then still be
  consumable in full. It is not: \<open>readableStream\<close> is still stream 0, which the
  tee has locked, and \<open>buffer()\<close> rejects. \<open>cloneBody\<close> sets both fields.
\<close>

theorem writeToStream_web_locks_the_handle:
  "\<exists>inst h d inst' h'.
     Body (BReadableStream 0) 0 0 (str ''Body'') None None
       \<lparr>nodes = [], webs = [\<lparr>wsrc = WOwn [[1], [2]] Ended, wlocked = False\<rparr>]\<rparr> = Inr (inst, h)
     \<and> fst (buffer_B [ReadSettles, ReadSettles, ReadSettles] inst h) = Resolved [1, 2]
     \<and> writeToStream \<lparr>written = [], ended = False\<rparr> inst h = Inr (d, inst', h')
     \<and> d = \<lparr>written = [[1], [2]], ended = True\<rparr>
     \<and> \<not> disturbed inst' \<and> body inst' = BReadableStream 1 \<and> readableStream inst' = Some 0
     \<and> wlocked (webs h' ! 0) \<and> \<not> wlocked (webs h' ! 1)
     \<and> fst (buffer_B [ReadSettles, ReadSettles, ReadSettles] inst' h')
         = Rejected (TypeError locked_message)"
  by (simp add: Body_def buffer_B_def consumeBody_def getInstanceReadableStream_def
      getReader_def web_items_def lock_def pull_def start_def step_def on_read_def on_chunk_def
      on_done_def Buffer_concat_def kMaxLength_def settle_def clearTimeout_def settled_def
      writeToStream_def getInstanceBody_def tee_def new_web_def dest_write_def dest_end_def)

section \<open>The read loop of consumeBody\<close>

lemmas loop_defs = step_def on_read_def on_chunk_def on_done_def on_timeout_def settle_def
  clearTimeout_def


lemma run_append: "run inst (s1 @ s2) c = run inst s2 (run inst s1 c)"
  by (induction s1 arbitrary: c) auto

lemma start_live: "live inst (start inst items)"
  by (simp add: live_def start_def)

lemma step_live: "live inst c \<Longrightarrow> live inst (step inst t c) \<or> over inst (step inst t c)"
  by (cases t)
     (auto simp: live_def over_def loop_defs rejected_kind_def Buffer_concat_def
        split: list.splits ending.splits sum.splits)

lemma step_over:
  "over inst c \<Longrightarrow>
   over inst (step inst t c) \<and> promise (step inst t c) = promise c \<and>
   buffers (step inst t c) = buffers c \<and> totalBytes (step inst t c) = totalBytes c \<and>
   timedOut (step inst t c) = timedOut c \<and> resTimeout (step inst t c) = resTimeout c"
  by (cases t)
     (auto simp: over_def loop_defs rejected_kind_def
        split: list.splits ending.splits sum.splits if_splits)

lemma run_over:
  "over inst c \<Longrightarrow>
   over inst (run inst sched c) \<and> promise (run inst sched c) = promise c \<and>
   buffers (run inst sched c) = buffers c \<and> totalBytes (run inst sched c) = totalBytes c \<and>
   timedOut (run inst sched c) = timedOut c \<and> resTimeout (run inst sched c) = resTimeout c"
proof (induction sched arbitrary: c)
  case Nil
  then show ?case by simp
next
  case (Cons t ts)
  from step_over [OF Cons.prems, of t] Cons.IH [of "step inst t c"] show ?case
    by simp
qed

lemma run_live: "live inst c \<Longrightarrow> live inst (run inst sched c) \<or> over inst (run inst sched c)"
proof (induction sched arbitrary: c)
  case Nil
  then show ?case by simp
next
  case (Cons t ts)
  from step_live [OF Cons.prems, of t] show ?case
  proof
    assume "live inst (step inst t c)"
    then show ?thesis using Cons.IH by simp
  next
    assume "over inst (step inst t c)"
    then show ?thesis using run_over [of inst "step inst t c" ts] by simp
  qed
qed

lemma run_settled: "run inst sched (settled r) = settled r"
  by (induction sched) (auto simp: settled_def step_def split: tick.splits)

lemma live_disturbed [simp]: "live (inst\<lparr>disturbed := True\<rparr>) c = live inst c"
  by (simp add: live_def)

lemma over_disturbed [simp]: "over (inst\<lparr>disturbed := True\<rparr>) c = over inst c"
  by (simp add: over_def)

lemma consumeBody_shape:
  "(\<exists>r. r \<noteq> Pending \<and> (\<forall>sched. fst (consumeBody sched inst h) = settled r)) \<or>
   (\<exists>r items h'. \<not> disturbed inst \<and> readableStream inst = Some r \<and>
      getReader r h = Inr (items, h') \<and>
      (\<forall>sched. fst (consumeBody sched inst h) =
         run (inst\<lparr>disturbed := True\<rparr>) sched (start (inst\<lparr>disturbed := True\<rparr>) items)))"
proof (cases "disturbed inst")
  case True
  then show ?thesis by (auto simp: consumeBody_def)
next
  case False
  show ?thesis
  proof (cases "readableStream inst")
    case None
    with False show ?thesis
      by (auto simp: consumeBody_def getInstanceReadableStream_def)
  next
    case (Some r)
    show ?thesis
    proof (cases "getReader r h")
      case (Inl err)
      with False Some show ?thesis
        by (auto simp: consumeBody_def getInstanceReadableStream_def)
    next
      case (Inr x)
      with False Some show ?thesis
        by (cases x) (auto simp: consumeBody_def getInstanceReadableStream_def Let_def)
    qed
  qed
qed

lemma timer_fires_live:
  "live inst c \<Longrightarrow> timeout inst \<noteq> 0 \<Longrightarrow>
   over inst (step inst TimerFires c) \<and>
   promise (step inst TimerFires c) =
     Rejected (FetchError
       (str ''Response timeout while trying to fetch '' @ tpl (url inst) @ str '' (over ''
          @ show_nat (timeout inst) @ str ''ms)'')
       (str ''body-timeout'') None) \<and>
   timedOut (step inst TimerFires c) \<and> buffers (step inst TimerFires c) = buffers c \<and>
   totalBytes (step inst TimerFires c) = totalBytes c \<and> resTimeout (step inst TimerFires c) = Fired"
  by (simp add: live_def over_def loop_defs rejected_kind_def)

text \<open>
  C9. With a timeout, the timer is armed exactly as long as the promise is pending. If
  it fires while the promise is pending (after the callbacks \<open>s1\<close>), consumption rejects
  with the FetchError of type \<open>body-timeout\<close>, and whatever is read afterwards (the
  callbacks \<open>s2\<close>) is ignored: \<open>buffers\<close> and \<open>totalBytes\<close> stay as they were. On every
  outcome the timer that was set is no longer armed: it has fired, or it is cleared.
\<close>

theorem body_timeout_and_timer:
  "timeout inst \<noteq> 0 \<Longrightarrow>
   (let c1 = fst (consumeBody s1 inst h);
        c2 = fst (consumeBody (s1 @ TimerFires # s2) inst h)
    in (resTimeout c1 = Armed \<longleftrightarrow> promise c1 = Pending)
     \<and> (promise c1 = Pending \<longrightarrow>
          promise c2 =
            Rejected (FetchError
              (str ''Response timeout while trying to fetch '' @ tpl (url inst) @ str '' (over ''
                 @ show_nat (timeout inst) @ str ''ms)'')
              (str ''body-timeout'') None)
          \<and> timedOut c2 \<and> buffers c2 = buffers c1 \<and> totalBytes c2 = totalBytes c1
          \<and> resTimeout c2 = Fired)
     \<and> (promise c1 \<noteq> Pending \<and> resTimeout c1 \<noteq> Unset \<longrightarrow>
          (if timedOut c1 then resTimeout c1 = Fired else resTimeout c1 = Cleared)))"
proof -
  assume tmo: "timeout inst \<noteq> 0"
  let ?i = "inst\<lparr>disturbed := True\<rparr>"
  from consumeBody_shape [of inst h] show ?thesis
  proof (elim disjE exE conjE)
    fix r
    assume "r \<noteq> Pending" and "\<forall>sched. fst (consumeBody sched inst h) = settled r"
    then show ?thesis by (simp add: settled_def)
  next
    fix r items h'
    assume run: "\<forall>sched. fst (consumeBody sched inst h) = run ?i sched (start ?i items)"
    let ?c1 = "run ?i s1 (start ?i items)"
    have c2: "fst (consumeBody (s1 @ TimerFires # s2) inst h) = run ?i s2 (step ?i TimerFires ?c1)"
      using run by (simp add: run_append)
    from run_live [OF start_live [of ?i items], of s1] have "live inst ?c1 \<or> over inst ?c1"
      by simp
    then show ?thesis
    proof
      assume l: "live inst ?c1"
      then have l': "live ?i ?c1" by simp
      from timer_fires_live [OF l'] tmo
      have f: "over ?i (step ?i TimerFires ?c1)"
        "promise (step ?i TimerFires ?c1) =
           Rejected (FetchError
             (str ''Response timeout while trying to fetch '' @ tpl (url inst) @ str '' (over ''
               @ show_nat (timeout inst) @ str ''ms)'')
             (str ''body-timeout'') None)"
        "timedOut (step ?i TimerFires ?c1)" "buffers (step ?i TimerFires ?c1) = buffers ?c1"
        "totalBytes (step ?i TimerFires ?c1) = totalBytes ?c1"
        "resTimeout (step ?i TimerFires ?c1) = Fired"
        by simp_all
      from run_over [OF f(1), of s2] f l tmo run c2 show ?thesis
        by (simp add: live_def)
    next
      assume "over inst ?c1"
      then show ?thesis using tmo run by (auto simp: over_def Let_def)
    qed
  qed
qed

theorem body_timeout_and_timer_witness:
  "timeout (web_instance 0 100) \<noteq> 0
   \<and> promise (fst (consumeBody [ReadSettles] (web_instance 0 100) (one_web [[1], [2], [3]] Ended)))
       = Pending
   \<and> resTimeout (fst (consumeBody [ReadSettles] (web_instance 0 100)
        (one_web [[1], [2], [3]] Ended))) = Armed
   \<and> rejected_kind (promise (fst (consumeBody
        ([ReadSettles] @ TimerFires # [ReadSettles, ReadSettles, ReadSettles])
        (web_instance 0 100) (one_web [[1], [2], [3]] Ended)))) = Some (str ''body-timeout'')
   \<and> buffers (fst (consumeBody
        ([ReadSettles] @ TimerFires # [ReadSettles, ReadSettles, ReadSettles])
        (web_instance 0 100) (one_web [[1], [2], [3]] Ended))) = [[1]]
   \<and> promise (fst (consumeBody [ReadSettles, ReadSettles, ReadSettles, ReadSettles]
        (web_instance 0 100) (one_web [[1], [2], [3]] Ended))) = Resolved [1, 2, 3]
   \<and> resTimeout (fst (consumeBody [ReadSettles, ReadSettles, ReadSettles, ReadSettles]
        (web_instance 0 100) (one_web [[1], [2], [3]] Ended))) = Cleared"
proof -
  let ?i = "web_instance 0 100" and ?h = "one_web [[1], [2], [3]] Ended"
  note defs = web_instance_def one_web_def bare_def consumeBody_def getInstanceReadableStream_def
    getReader_def web_items_def lock_def start_def loop_defs Buffer_concat_def kMaxLength_def
  have t: "timeout ?i \<noteq> 0" by (simp add: web_instance_def)
  have p: "promise (fst (consumeBody [ReadSettles] ?i ?h)) = Pending"
    and b: "buffers (fst (consumeBody [ReadSettles] ?i ?h)) = [[1]]"
    by (simp_all add: defs)
  have d: "promise (fst (consumeBody [ReadSettles, ReadSettles, ReadSettles, ReadSettles] ?i ?h))
             = Resolved [1, 2, 3]"
    "\<not> timedOut (fst (consumeBody [ReadSettles, ReadSettles, ReadSettles, ReadSettles] ?i ?h))"
    "resTimeout (fst (consumeBody [ReadSettles, ReadSettles, ReadSettles, ReadSettles] ?i ?h))
       \<noteq> Unset"
    by (simp_all add: defs)
  from body_timeout_and_timer [OF t, of "[ReadSettles]" "?h"
      "[ReadSettles, ReadSettles, ReadSettles]"]
    body_timeout_and_timer [OF t, of "[ReadSettles, ReadSettles, ReadSettles, ReadSettles]" "?h" "[]"]
    t p b d
  show ?thesis
    by (simp add: Let_def rejected_kind_def)
qed












section \<open>Clone\<close>





















text \<open>
  A consumption without cap and without timeout whose stream stalls stays pending.
\<close>

lemma run_stalled:
  assumes "live inst c" and "final c = Stalled" and "size_B inst = 0" and "timeout inst = 0"
  shows "live inst (run inst sched c) \<and> final (run inst sched c) = Stalled"
  using assms(1,2)
proof (induction sched arbitrary: c)
  case Nil
  then show ?case by simp
next
  case (Cons t ts)
  from Cons.prems assms(3,4) have
    "live inst (step inst t c) \<and> final (step inst t c) = Stalled"
    by (cases t; cases "incoming c") (auto simp: live_def loop_defs)
  with Cons.IH show ?case by simp
qed











text \<open>
  No number of callbacks helps, whenever the single chunk reaches the high-water mark:
  while the clone is not read, the original stays pending.
\<close>

lemma large_clone_never_settles:
  assumes "highWaterMark \<le> length chunk"
  shows "promise (fst (consumeBody sched node_original (cloned_node [chunk]))) = Pending"
proof -
  let ?i = "node_original\<lparr>disturbed := True\<rparr>"
  have "fst (consumeBody sched node_original (cloned_node [chunk]))
        = run ?i sched (start ?i ([chunk], Stalled))"
    using assms
    by (simp add: consumeBody_def getInstanceReadableStream_def getReader_def web_items_def
        node_emits_def blocked_def Let_def node_original_def bare_def cloned_node_def)
  moreover have "live ?i (run ?i sched (start ?i ([chunk], Stalled)))"
    using run_stalled [OF start_live [of ?i "([chunk], Stalled)"], of sched]
    by (simp add: start_def node_original_def bare_def)
  ultimately show ?thesis
    by (simp add: live_def)
qed

end
